theory Spec2Isabelle
  imports Main "HOL-Library.Word"
begin

section \<open>Go values shared by both packages\<close>

text \<open>
  Go's \<open>int64\<close> (and \<open>time.Duration\<close>, which is an \<open>int64\<close> count of nanoseconds) is a
  64-bit word read in two's complement; \<open>uint16\<close> is a 16-bit word.  Go's \<open>>=\<close> on a
  \<open>time.Duration\<close> is the signed order, written \<open>word_sle\<close> here.
\<close>

type_synonym int64 = "64 word"
type_synonym uint16 = "16 word"
type_synonym Duration = "64 word"

definition time_Second :: Duration where
  "time_Second = 1000000000"

definition time_Hour :: Duration where
  "time_Hour = 3600 * time_Second"

text \<open>
  A Go \<open>error\<close> value.  \<open>PgError code\<close> is a \<open>*pgconn.PgError\<close> with that SQLSTATE code,
  \<open>ErrorString msg\<close> any other error produced by a library, and the \<open>Errorf\<close> constructors
  are the results of \<open>fmt.Errorf\<close> with the format string and its operands kept apart:
  one \<open>%w\<close> operand (which the result wraps), one \<open>%d\<close> operand, two \<open>%s\<close> operands.
\<close>

datatype error =
    PgError string
  | ErrorString string
  | Errorf_w string error
  | Errorf_d string int
  | Errorf_s_s string Duration Duration

section \<open>Package crdb: options.go\<close>

record crdbOptions =
  connMaxIdleTime :: "Duration option"
  connMaxLifetime :: "Duration option"
  minOpenConns :: "int64 option"
  maxOpenConns :: "int64 option"
  watchBufferLength :: uint16
  revisionQuantization :: Duration
  gcWindow :: Duration

definition errQuantizationTooLarge :: string where
  "errQuantizationTooLarge = ''revision quantization (%s) must be less than GC window (%s)''"

definition defaultRevisionQuantization :: Duration where
  "defaultRevisionQuantization = 5 * time_Second"

definition defaultWatchBufferLength :: uint16 where
  "defaultWatchBufferLength = 128"

text \<open>\<open>type CRDBOption func(*crdbOptions)\<close>: the mutation returns the updated struct.\<close>

type_synonym CRDBOption = "crdbOptions \<Rightarrow> crdbOptions"

definition ConnMaxIdleTime :: "Duration \<Rightarrow> CRDBOption" where
  "ConnMaxIdleTime idle = (\<lambda>po. po\<lparr>connMaxIdleTime := Some idle\<rparr>)"

definition ConnMaxLifetime :: "Duration \<Rightarrow> CRDBOption" where
  "ConnMaxLifetime lifetime = (\<lambda>po. po\<lparr>connMaxLifetime := Some lifetime\<rparr>)"

definition MinOpenConns :: "int64 \<Rightarrow> CRDBOption" where
  "MinOpenConns conns = (\<lambda>po. po\<lparr>minOpenConns := Some conns\<rparr>)"

definition MaxOpenConns :: "int64 \<Rightarrow> CRDBOption" where
  "MaxOpenConns conns = (\<lambda>po. po\<lparr>maxOpenConns := Some conns\<rparr>)"

definition WatchBufferLength :: "uint16 \<Rightarrow> CRDBOption" where
  "WatchBufferLength n = (\<lambda>po. po\<lparr>watchBufferLength := n\<rparr>)"

definition RevisionQuantization :: "Duration \<Rightarrow> CRDBOption" where
  "RevisionQuantization bucketSize = (\<lambda>po. po\<lparr>revisionQuantization := bucketSize\<rparr>)"

definition GCWindow :: "Duration \<Rightarrow> CRDBOption" where
  "GCWindow window = (\<lambda>po. po\<lparr>gcWindow := window\<rparr>)"

text \<open>The struct literal at the head of \<open>generateConfig\<close>; fields it omits are nil.\<close>

definition initial_computed :: crdbOptions where
  "initial_computed =
     \<lparr>connMaxIdleTime = None, connMaxLifetime = None,
      minOpenConns = None, maxOpenConns = None,
      watchBufferLength = defaultWatchBufferLength,
      revisionQuantization = defaultRevisionQuantization,
      gcWindow = 24 * time_Hour\<rparr>"

text \<open>The \<open>for _, option := range options\<close> loop.\<close>

fun apply_options :: "crdbOptions \<Rightarrow> CRDBOption list \<Rightarrow> crdbOptions" where
  "apply_options computed [] = computed"
| "apply_options computed (option # options) = apply_options (option computed) options"

text \<open>Go returns the pair of the struct and the error; \<open>None\<close> is a nil error.\<close>

definition generateConfig :: "CRDBOption list \<Rightarrow> crdbOptions \<times> error option" where
  "generateConfig options =
     (let computed = apply_options initial_computed options in
      if word_sle (gcWindow computed) (revisionQuantization computed)
      then (computed,
            Some (Errorf_s_s errQuantizationTooLarge
                    (revisionQuantization computed) (gcWindow computed)))
      else (computed, None))"

subsection \<open>The option sequences of the specification\<close>

text \<open>
  A call of one of the seven named setters, as written by a caller of the package, and
  the closure it evaluates to.
\<close>

datatype setter_call =
    CallConnMaxIdleTime Duration
  | CallConnMaxLifetime Duration
  | CallMinOpenConns int64
  | CallMaxOpenConns int64
  | CallWatchBufferLength uint16
  | CallRevisionQuantization Duration
  | CallGCWindow Duration

fun eval_call :: "setter_call \<Rightarrow> CRDBOption" where
  "eval_call (CallConnMaxIdleTime d) = ConnMaxIdleTime d"
| "eval_call (CallConnMaxLifetime d) = ConnMaxLifetime d"
| "eval_call (CallMinOpenConns n) = MinOpenConns n"
| "eval_call (CallMaxOpenConns n) = MaxOpenConns n"
| "eval_call (CallWatchBufferLength n) = WatchBufferLength n"
| "eval_call (CallRevisionQuantization d) = RevisionQuantization d"
| "eval_call (CallGCWindow d) = GCWindow d"

text \<open>
  The specification's reading of a sequence: for each field, the value of the last call
  in the sequence that names the field, and the default when no call names it.
\<close>

definition last_applied :: "('c \<Rightarrow> 'a option) \<Rightarrow> 'a \<Rightarrow> 'c list \<Rightarrow> 'a" where
  "last_applied sel dflt cs =
     (case List.map_filter sel cs of [] \<Rightarrow> dflt | v # vs \<Rightarrow> last (v # vs))"

fun idle_of :: "setter_call \<Rightarrow> Duration option option" where
  "idle_of (CallConnMaxIdleTime d) = Some (Some d)"
| "idle_of _ = None"

fun lifetime_of :: "setter_call \<Rightarrow> Duration option option" where
  "lifetime_of (CallConnMaxLifetime d) = Some (Some d)"
| "lifetime_of _ = None"

fun min_conns_of :: "setter_call \<Rightarrow> int64 option option" where
  "min_conns_of (CallMinOpenConns n) = Some (Some n)"
| "min_conns_of _ = None"

fun max_conns_of :: "setter_call \<Rightarrow> int64 option option" where
  "max_conns_of (CallMaxOpenConns n) = Some (Some n)"
| "max_conns_of _ = None"

fun buffer_of :: "setter_call \<Rightarrow> uint16 option" where
  "buffer_of (CallWatchBufferLength n) = Some n"
| "buffer_of _ = None"

fun quantization_of :: "setter_call \<Rightarrow> Duration option" where
  "quantization_of (CallRevisionQuantization d) = Some d"
| "quantization_of _ = None"

fun window_of :: "setter_call \<Rightarrow> Duration option" where
  "window_of (CallGCWindow d) = Some d"
| "window_of _ = None"

definition final_quantization :: "setter_call list \<Rightarrow> Duration" where
  "final_quantization cs = last_applied quantization_of (5 * time_Second) cs"

definition final_window :: "setter_call list \<Rightarrow> Duration" where
  "final_window cs = last_applied window_of (24 * time_Hour) cs"

definition last_write_wins :: "setter_call list \<Rightarrow> crdbOptions" where
  "last_write_wins cs =
     \<lparr>connMaxIdleTime = last_applied idle_of None cs,
      connMaxLifetime = last_applied lifetime_of None cs,
      minOpenConns = last_applied min_conns_of None cs,
      maxOpenConns = last_applied max_conns_of None cs,
      watchBufferLength = last_applied buffer_of 128 cs,
      revisionQuantization = final_quantization cs,
      gcWindow = final_window cs\<rparr>"

section \<open>Package migrations: driver.go\<close>

definition errUnableToInstantiate :: string where
  "errUnableToInstantiate = ''unable to instantiate CRDBDriver: %w''"

definition postgresMissingTableErrorCode :: string where
  "postgresMissingTableErrorCode = ''42P01''"

definition queryLoadVersion :: string where
  "queryLoadVersion = ''SELECT version_num from schema_version''"

definition queryWriteVersion :: string where
  "queryWriteVersion = ''UPDATE schema_version SET version_num=$1 WHERE version_num=$2''"

text \<open>
  \<open>errors.As(err, &pgErr)\<close> with \<open>pgErr\<close> a \<open>*pgconn.PgError\<close>: the first error of that
  type on the chain of wrapped errors, if there is one; the result is its \<open>Code\<close>.
\<close>

fun errors_As_PgError :: "error \<Rightarrow> string option" where
  "errors_As_PgError (PgError code) = Some code"
| "errors_As_PgError (Errorf_w fmt err) = errors_As_PgError err"
| "errors_As_PgError (ErrorString msg) = None"
| "errors_As_PgError (Errorf_d fmt n) = None"
| "errors_As_PgError (Errorf_s_s fmt a b) = None"

subsection \<open>The connection library and the database behind it\<close>

text \<open>
  The driver reaches the database only through the pgx library, which is not part of
  the repository.  Its contract is fixed here as far as the driver relies on it.

  The database holds the table \<open>schema_version\<close> (\<open>None\<close> while the table does not exist,
  otherwise the \<open>version_num\<close> of its rows, in scan order) and whatever else the migration
  bodies work on.

  Every connection has a session on the server: idle, or inside a transaction with the
  content of the database as this transaction sees it, or closed.  A transaction starts
  from the committed content; its statements change only what the session sees; a
  commit makes that the committed content, a rollback drops it.  The world is the
  committed content, the sessions of the connections opened so far (a connection is
  the index of its session), and the library calls issued so far, oldest first.
\<close>

record 'd database =
  schema_version :: "string list option"
  relations :: 'd

datatype 'd session = Idle | InTx "'d database" | Closed

datatype TxAccessMode = ReadWrite | ReadOnly

record TxOptions =
  AccessMode :: TxAccessMode

datatype call =
    CallParseConfig string
  | CallConnectConfig string
  | CallQueryRow string
  | CallBeginTx TxAccessMode
  | CallMigrationFunc
  | CallExec string "string list"
  | CallCommit
  | CallRollback

record 'd world =
  store :: "'d database"
  sessions :: "'d session list"
  calls :: "call list"

text \<open>
  What lies outside the program: how the library parses a connection string, and
  whether a call to the server fails for a reason that the content of the database does
  not decide (network, cancellation, permissions, contention).  A call that fails so
  has no effect on the content of the database.  For a statement and for a commit it
  matters to the library whether the server answered with an error, which leaves the
  connection usable, or the connection broke; connecting, beginning and rolling back
  treat every failure alike.
\<close>

datatype fault = Refused error | Broken error

fun cause :: "fault \<Rightarrow> error" where
  "cause (Refused err) = err"
| "cause (Broken err) = err"

datatype logger = ZerologAdapter

record ConnConfig =
  ConnString :: string
  Logger :: "logger option"

record env =
  ParseConfig :: "string \<Rightarrow> error + ConnConfig"
  connect_fault :: "error option"
  query_fault :: "fault option"
  begin_fault :: "error option"
  exec_fault :: "fault option"
  commit_fault :: "fault option"
  rollback_fault :: "error option"

record Conn =
  config :: ConnConfig
  conn_id :: nat

text \<open>
  The handle of a transaction (\<open>pgx.Tx\<close>): the connection it runs on, the access mode it
  was begun with, and the flag the library sets once the transaction has been committed
  or rolled back through this handle.
\<close>

record Tx =
  tx_conn :: Conn
  access :: TxAccessMode
  closed :: bool

definition ErrTxClosed :: error where
  "ErrTxClosed = ErrorString ''tx is closed''"

definition ErrConnClosed :: error where
  "ErrConnClosed = ErrorString ''conn closed''"

definition ErrNoRows :: error where
  "ErrNoRows = ErrorString ''no rows in result set''"

definition logged :: "call \<Rightarrow> 'd world \<Rightarrow> 'd world" where
  "logged c w = w\<lparr>calls := calls w @ [c]\<rparr>"

definition session_of :: "'d world \<Rightarrow> Conn \<Rightarrow> 'd session" where
  "session_of w conn =
     (if conn_id conn < length (sessions w) then sessions w ! conn_id conn else Closed)"

definition set_session :: "Conn \<Rightarrow> 'd session \<Rightarrow> 'd world \<Rightarrow> 'd world" where
  "set_session conn s w = w\<lparr>sessions := (sessions w)[conn_id conn := s]\<rparr>"

fun is_live :: "'d session \<Rightarrow> bool" where
  "is_live Closed = False"
| "is_live Idle = True"
| "is_live (InTx v) = True"

definition live_conns :: "'d world \<Rightarrow> nat" where
  "live_conns w = length (filter is_live (sessions w))"

text \<open>The session after a failed statement or commit: a broken connection is closed.\<close>

fun after_fault :: "fault \<Rightarrow> 'd session \<Rightarrow> 'd session" where
  "after_fault (Refused err) s = s"
| "after_fault (Broken err) s = Closed"

definition pgx_ParseConfig :: "env \<Rightarrow> string \<Rightarrow> 'd world \<Rightarrow> (error + ConnConfig) \<times> 'd world" where
  "pgx_ParseConfig env url w = (ParseConfig env url, logged (CallParseConfig url) w)"

text \<open>\<open>pgx.ConnectConfig\<close>: a new connection, with an idle session of its own.\<close>

definition pgx_ConnectConfig :: "env \<Rightarrow> ConnConfig \<Rightarrow> 'd world \<Rightarrow> (error + Conn) \<times> 'd world" where
  "pgx_ConnectConfig env cfg w =
     (let w1 = logged (CallConnectConfig (ConnString cfg)) w in
      case connect_fault env of
        Some err \<Rightarrow> (Inl err, w1)
      | None \<Rightarrow>
          (Inr \<lparr>config = cfg, conn_id = length (sessions w1)\<rparr>,
           w1\<lparr>sessions := sessions w1 @ [Idle]\<rparr>))"

text \<open>
  \<open>conn.QueryRow(ctx, sql).Scan(&loaded)\<close> for the one query the driver issues.  A closed
  connection answers nothing.  Otherwise the query reads what the session sees, the
  committed content when idle and the transaction's content inside a transaction: the
  first row of the table, \<open>ErrNoRows\<close> on an empty table, and the server's
  undefined-table error (SQLSTATE 42P01) when the table does not exist.
\<close>

fun read_version :: "'d database \<Rightarrow> error + string" where
  "read_version d =
     (case schema_version d of
        None \<Rightarrow> Inl (PgError ''42P01'')
      | Some [] \<Rightarrow> Inl ErrNoRows
      | Some (v # vs) \<Rightarrow> Inr v)"

definition pgx_QueryRow_Scan :: "env \<Rightarrow> Conn \<Rightarrow> string \<Rightarrow> 'd world \<Rightarrow> (error + string) \<times> 'd world" where
  "pgx_QueryRow_Scan env conn sql w =
     (let w1 = logged (CallQueryRow sql) w in
      case session_of w1 conn of
        Closed \<Rightarrow> (Inl ErrConnClosed, w1)
      | Idle \<Rightarrow>
          (case query_fault env of
             Some flt \<Rightarrow> (Inl (cause flt), set_session conn (after_fault flt Idle) w1)
           | None \<Rightarrow>
               if sql = queryLoadVersion then (read_version (store w1), w1)
               else (Inl (ErrorString ''statement outside the model''), w1))
      | InTx v \<Rightarrow>
          (case query_fault env of
             Some flt \<Rightarrow> (Inl (cause flt), set_session conn (after_fault flt (InTx v)) w1)
           | None \<Rightarrow>
               if sql = queryLoadVersion then (read_version v, w1)
               else (Inl (ErrorString ''statement outside the model''), w1)))"

text \<open>
  \<open>conn.BeginTx(ctx, txOptions)\<close>.  The library closes the connection when the \<open>begin\<close>
  fails.  The server ignores a \<open>begin\<close> inside a transaction.
\<close>

definition pgx_BeginTx ::
    "env \<Rightarrow> Conn \<Rightarrow> TxOptions \<Rightarrow> 'd world \<Rightarrow> (error + Tx) \<times> 'd world" where
  "pgx_BeginTx env conn txOptions w =
     (let w1 = logged (CallBeginTx (AccessMode txOptions)) w;
          tx = \<lparr>tx_conn = conn, access = AccessMode txOptions, closed = False\<rparr> in
      case session_of w1 conn of
        Closed \<Rightarrow> (Inl ErrConnClosed, w1)
      | Idle \<Rightarrow>
          (case begin_fault env of
             Some err \<Rightarrow> (Inl err, set_session conn Closed w1)
           | None \<Rightarrow> (Inr tx, set_session conn (InTx (store w1)) w1))
      | InTx v \<Rightarrow>
          (case begin_fault env of
             Some err \<Rightarrow> (Inl err, set_session conn Closed w1)
           | None \<Rightarrow> (Inr tx, w1)))"

text \<open>
  \<open>tx.Exec(ctx, sql, args...)\<close> for the one statement the driver issues, the conditional
  update: every row holding the second argument is rewritten to the first, in what the
  session sees, and the command tag reports how many rows that were.  A read-only
  transaction refuses the update (SQLSTATE 25006).  The result is Go's pair of the
  command tag (here its \<open>RowsAffected()\<close>) and the error.
\<close>

definition update_version_num :: "string \<Rightarrow> string \<Rightarrow> string list \<Rightarrow> string list" where
  "update_version_num version replaced rows =
     map (\<lambda>r. if r = replaced then version else r) rows"

definition rows_matching :: "string \<Rightarrow> string list \<Rightarrow> int" where
  "rows_matching replaced rows = int (length (filter (\<lambda>r. r = replaced) rows))"

definition pgx_Tx_Exec ::
    "env \<Rightarrow> Tx \<Rightarrow> string \<Rightarrow> string list \<Rightarrow> 'd world \<Rightarrow> (int \<times> error option) \<times> Tx \<times> 'd world" where
  "pgx_Tx_Exec env tx sql args w =
     (let w1 = logged (CallExec sql args) w in
      if closed tx then ((0, Some ErrTxClosed), tx, w1)
      else case session_of w1 (tx_conn tx) of
        Closed \<Rightarrow> ((0, Some ErrConnClosed), tx, w1)
      | Idle \<Rightarrow> ((0, Some (ErrorString ''statement outside the model'')), tx, w1)
      | InTx v \<Rightarrow>
          (case exec_fault env of
             Some flt \<Rightarrow>
               ((0, Some (cause flt)), tx, set_session (tx_conn tx) (after_fault flt (InTx v)) w1)
           | None \<Rightarrow>
               (case args of
                  [version, replaced] \<Rightarrow>
                    if sql = queryWriteVersion then
                      (case schema_version v of
                         None \<Rightarrow> ((0, Some (PgError ''42P01'')), tx, w1)
                       | Some rows \<Rightarrow>
                           if access tx = ReadOnly
                           then ((0, Some (PgError ''25006'')), tx, w1)
                           else
                             ((rows_matching replaced rows, None), tx,
                              set_session (tx_conn tx)
                                (InTx (v\<lparr>schema_version :=
                                         Some (update_version_num version replaced rows)\<rparr>)) w1))
                    else ((0, Some (ErrorString ''statement outside the model'')), tx, w1)
                | _ \<Rightarrow> ((0, Some (ErrorString ''statement outside the model'')), tx, w1))))"

text \<open>
  \<open>tx.Commit(ctx)\<close>.  A handle that is closed answers \<open>ErrTxClosed\<close> and does nothing.
  Otherwise the handle is closed whatever happens next.  A successful commit makes what
  the session sees the committed content and leaves the session idle.  When the server
  refuses the commit it has ended the transaction and the session is idle; when the
  connection broke it is closed.
\<close>

definition pgx_Tx_Commit :: "env \<Rightarrow> Tx \<Rightarrow> 'd world \<Rightarrow> error option \<times> Tx \<times> 'd world" where
  "pgx_Tx_Commit env tx w =
     (let w1 = logged CallCommit w in
      if closed tx then (Some ErrTxClosed, tx, w1)
      else case session_of w1 (tx_conn tx) of
        Closed \<Rightarrow> (Some ErrConnClosed, tx\<lparr>closed := True\<rparr>, w1)
      | Idle \<Rightarrow> (None, tx\<lparr>closed := True\<rparr>, w1)
      | InTx v \<Rightarrow>
          (case commit_fault env of
             Some flt \<Rightarrow>
               (Some (cause flt), tx\<lparr>closed := True\<rparr>,
                set_session (tx_conn tx) (after_fault flt Idle) w1)
           | None \<Rightarrow>
               (None, tx\<lparr>closed := True\<rparr>, (set_session (tx_conn tx) Idle w1)\<lparr>store := v\<rparr>)))"

text \<open>
  \<open>tx.Rollback(ctx)\<close>.  A handle that is closed answers \<open>ErrTxClosed\<close> and does nothing.
  Otherwise a successful rollback drops what the session sees and leaves the session
  idle, and the library closes the connection when the rollback fails.
\<close>

definition pgx_Tx_Rollback :: "env \<Rightarrow> Tx \<Rightarrow> 'd world \<Rightarrow> error option \<times> Tx \<times> 'd world" where
  "pgx_Tx_Rollback env tx w =
     (let w1 = logged CallRollback w in
      if closed tx then (Some ErrTxClosed, tx, w1)
      else case session_of w1 (tx_conn tx) of
        Closed \<Rightarrow> (Some ErrConnClosed, tx\<lparr>closed := True\<rparr>, w1)
      | Idle \<Rightarrow> (None, tx\<lparr>closed := True\<rparr>, w1)
      | InTx v \<Rightarrow>
          (case rollback_fault env of
             Some err \<Rightarrow> (Some err, tx\<lparr>closed := True\<rparr>, set_session (tx_conn tx) Closed w1)
           | None \<Rightarrow> (None, tx\<lparr>closed := True\<rparr>, set_session (tx_conn tx) Idle w1)))"

text \<open>
  \<open>migrate.MigrationFunc[pgx.Tx]\<close>: the body receives the transaction handle and works
  through it, so what it does is a function of what the session sees inside the
  transaction, returning the error and the content it leaves behind.  A body whose
  handle has no transaction to work in returns the library's error.
\<close>

type_synonym 'd MigrationFunc = "'d database \<Rightarrow> error option \<times> 'd database"

definition call_MigrationFunc ::
    "'d MigrationFunc \<Rightarrow> Tx \<Rightarrow> 'd world \<Rightarrow> error option \<times> Tx \<times> 'd world" where
  "call_MigrationFunc f tx w =
     (let w1 = logged CallMigrationFunc w in
      if closed tx then (Some ErrTxClosed, tx, w1)
      else case session_of w1 (tx_conn tx) of
        Closed \<Rightarrow> (Some ErrConnClosed, tx, w1)
      | Idle \<Rightarrow> (Some ErrTxClosed, tx, w1)
      | InTx v \<Rightarrow>
          (case f v of (err, v') \<Rightarrow> (err, tx, set_session (tx_conn tx) (InTx v') w1)))"

subsection \<open>The driver\<close>

record CRDBDriver =
  db :: Conn

definition NewCRDBDriver :: "env \<Rightarrow> string \<Rightarrow> 'd world \<Rightarrow> (error + CRDBDriver) \<times> 'd world" where
  "NewCRDBDriver env url w =
     (case pgx_ParseConfig env url w of
        (Inl err, w1) \<Rightarrow> (Inl (Errorf_w errUnableToInstantiate err), w1)
      | (Inr connConfig, w1) \<Rightarrow>
          (case pgx_ConnectConfig env (connConfig\<lparr>Logger := Some ZerologAdapter\<rparr>) w1 of
             (Inl err, w2) \<Rightarrow> (Inl (Errorf_w errUnableToInstantiate err), w2)
           | (Inr conn, w2) \<Rightarrow> (Inr \<lparr>db = conn\<rparr>, w2)))"

definition Version :: "env \<Rightarrow> CRDBDriver \<Rightarrow> 'd world \<Rightarrow> (string \<times> error option) \<times> 'd world" where
  "Version env apd w =
     (case pgx_QueryRow_Scan env (db apd) queryLoadVersion w of
        (Inl err, w1) \<Rightarrow>
          (case errors_As_PgError err of
             Some code \<Rightarrow>
               if code = postgresMissingTableErrorCode then (([], None), w1)
               else (([], Some (Errorf_w ''unable to load alembic revision: %w'' err)), w1)
           | None \<Rightarrow> (([], Some (Errorf_w ''unable to load alembic revision: %w'' err)), w1))
      | (Inr loaded, w1) \<Rightarrow> ((loaded, None), w1))"

text \<open>
  \<open>writeVersion\<close> tests \<open>err\<close> twice: after \<open>tx.Exec\<close>, and again after \<open>RowsAffected()\<close>,
  which does not assign it.  Both tests are kept.
\<close>

definition writeVersion ::
    "env \<Rightarrow> Tx \<Rightarrow> string \<Rightarrow> string \<Rightarrow> 'd world \<Rightarrow> error option \<times> Tx \<times> 'd world" where
  "writeVersion env tx version replaced w =
     (case pgx_Tx_Exec env tx queryWriteVersion [version, replaced] w of
        ((result, err), tx1, w1) \<Rightarrow>
          (case err of
             Some e \<Rightarrow> (Some (Errorf_w ''unable to update version row: %w'' e), tx1, w1)
           | None \<Rightarrow>
               (let updatedCount = result in
                case err of
                  Some e \<Rightarrow>
                    (Some (Errorf_w ''unable to compute number of rows affected: %w'' e), tx1, w1)
                | None \<Rightarrow>
                    if updatedCount \<noteq> 1
                    then (Some (Errorf_d ''writing version update affected %d rows, should be 1''
                                  updatedCount), tx1, w1)
                    else (None, tx1, w1))))"

text \<open>
  \<open>Transact\<close> up to its \<open>return\<close>, and then \<open>Transact\<close> itself: once \<open>BeginTx\<close> has
  succeeded, the deferred \<open>tx.Rollback(ctx)\<close> runs after the return value is fixed, and
  what it returns is dropped.
\<close>

definition Transact_return ::
    "env \<Rightarrow> 'd MigrationFunc \<Rightarrow> string \<Rightarrow> string \<Rightarrow> Tx \<Rightarrow> 'd world
       \<Rightarrow> error option \<times> Tx \<times> 'd world" where
  "Transact_return env f version replaced tx w =
     (case call_MigrationFunc f tx w of
        (Some err, tx1, w1) \<Rightarrow> (Some err, tx1, w1)
      | (None, tx1, w1) \<Rightarrow>
          (case writeVersion env tx1 version replaced w1 of
             (Some err, tx2, w2) \<Rightarrow> (Some err, tx2, w2)
           | (None, tx2, w2) \<Rightarrow> pgx_Tx_Commit env tx2 w2))"

definition Transact ::
    "env \<Rightarrow> CRDBDriver \<Rightarrow> 'd MigrationFunc \<Rightarrow> string \<Rightarrow> string \<Rightarrow> 'd world
       \<Rightarrow> error option \<times> 'd world" where
  "Transact env apd f version replaced w =
     (case pgx_BeginTx env (db apd) \<lparr>AccessMode = ReadWrite\<rparr> w of
        (Inl err, w1) \<Rightarrow> (Some err, w1)
      | (Inr tx, w1) \<Rightarrow>
          (case Transact_return env f version replaced tx w1 of
             (err, tx1, w2) \<Rightarrow>
               (case pgx_Tx_Rollback env tx1 w2 of
                  (dropped, tx2, w3) \<Rightarrow> (err, w3))))"

section \<open>Registration of migrations\<close>

text \<open>
  Modelled from the spec: \<open>registerMigration\<close> belongs to the MySQL migrations package,
  of which only the test \<open>TestMySQLMigrationsWithUnsupportedPrefix\<close> is among the sources.
  The specification says that migrations are registered under a version string and a
  "replaces" predecessor string, and that registration rejects an identifier with a
  disallowed numeric prefix.  Accordingly a version that starts with a decimal digit is
  refused and the registry is left as it was; any other version is entered.
\<close>

definition numeric_prefix :: "string \<Rightarrow> bool" where
  "numeric_prefix version =
     (case version of [] \<Rightarrow> False | c # cs \<Rightarrow> c \<in> set ''0123456789'')"

text \<open>
  Modelled from the spec: \<open>registerMigration\<close>, whose three arguments are those of the
  call in the test: the version, the version it replaces, and the migration body.
\<close>

definition registerMigration ::
    "string \<Rightarrow> string \<Rightarrow> 'f \<Rightarrow> (string \<times> string \<times> 'f) list
       \<Rightarrow> error option \<times> (string \<times> string \<times> 'f) list" where
  "registerMigration version replaces up registry =
     (if numeric_prefix version
      then (Some (ErrorString ''unsupported migration version''), registry)
      else (None, registry @ [(version, replaces, up)]))"

section \<open>Example inputs\<close>

text \<open>
  A library that parses every connection string and a server that answers every call;
  a database whose other content is a list of table names, reached by one idle
  connection, which is the driver's; the same with a transaction begun on that
  connection; the driver of the connection opened next; three migration bodies, one that does nothing, one that creates a table,
  and one that creates a table, overwrites the version rows and then fails.
\<close>

definition healthy :: env where
  "healthy =
     \<lparr>ParseConfig = (\<lambda>url. Inr \<lparr>ConnString = url, Logger = None\<rparr>),
      connect_fault = None, query_fault = None, begin_fault = None,
      exec_fault = None, commit_fault = None, rollback_fault = None\<rparr>"

definition migrated_to :: "string list \<Rightarrow> string list world" where
  "migrated_to rows =
     \<lparr>store = \<lparr>schema_version = Some rows, relations = [''relation_tuple'']\<rparr>,
      sessions = [Idle], calls = []\<rparr>"

definition a_driver :: CRDBDriver where
  "a_driver =
     \<lparr>db = \<lparr>config = \<lparr>ConnString = ''postgres://db'', Logger = Some ZerologAdapter\<rparr>,
            conn_id = 0\<rparr>\<rparr>"

definition second_driver :: CRDBDriver where
  "second_driver =
     \<lparr>db = \<lparr>config = \<lparr>ConnString = ''postgres://db'', Logger = Some ZerologAdapter\<rparr>,
            conn_id = 1\<rparr>\<rparr>"

definition a_tx :: Tx where
  "a_tx = \<lparr>tx_conn = db a_driver, access = ReadWrite, closed = False\<rparr>"

definition begun :: "string list world \<Rightarrow> string list world" where
  "begun w = set_session (db a_driver) (InTx (store w)) w"

definition empty_body :: "string list MigrationFunc" where
  "empty_body v = (None, v)"

definition add_table_body :: "string list MigrationFunc" where
  "add_table_body v = (None, v\<lparr>relations := ''namespace_config'' # relations v\<rparr>)"

definition failing_body :: "string list MigrationFunc" where
  "failing_body v =
     (Some (ErrorString ''column already exists''),
      v\<lparr>schema_version := Some [''999''], relations := ''namespace_config'' # relations v\<rparr>)"

section \<open>Properties of the configuration builder\<close>

lemma apply_options_append:
  "apply_options c (xs @ ys) = apply_options (apply_options c xs) ys"
  by (induction xs arbitrary: c) simp_all

lemma map_filter_snoc:
  "List.map_filter sel (cs @ [c]) =
     (case sel c of None \<Rightarrow> List.map_filter sel cs | Some v \<Rightarrow> List.map_filter sel cs @ [v])"
  by (induction cs) (simp_all split: option.splits)

lemma last_applied_Nil: "last_applied sel d [] = d"
  by (simp add: last_applied_def)

lemma last_applied_snoc:
  "last_applied sel d (cs @ [c]) = (case sel c of None \<Rightarrow> last_applied sel d cs | Some v \<Rightarrow> v)"
  by (cases "List.map_filter sel cs")
     (simp_all add: last_applied_def map_filter_snoc split: option.splits list.splits)

text \<open>A field that no call of the sequence names holds its default.\<close>

lemma last_applied_untouched:
  "(\<And>c. c \<in> set cs \<Longrightarrow> sel c = None) \<Longrightarrow> last_applied sel d cs = d"
proof (induction cs rule: rev_induct)
  case Nil
  show ?case by (rule last_applied_Nil)
next
  case (snoc c cs)
  then show ?case by (simp add: last_applied_snoc)
qed

lemma last_write_wins_Nil: "last_write_wins [] = initial_computed"
  by (simp add: last_write_wins_def initial_computed_def last_applied_Nil
      final_quantization_def final_window_def defaultWatchBufferLength_def
      defaultRevisionQuantization_def)

lemma last_write_wins_snoc:
  "last_write_wins (cs @ [c]) = eval_call c (last_write_wins cs)"
  by (cases c)
     (simp_all add: last_write_wins_def last_applied_snoc final_quantization_def final_window_def
        ConnMaxIdleTime_def ConnMaxLifetime_def MinOpenConns_def MaxOpenConns_def
        WatchBufferLength_def RevisionQuantization_def GCWindow_def)

text \<open>
  The loop of \<open>generateConfig\<close> computes the specification's reading of the sequence.
\<close>

lemma apply_options_calls:
  "apply_options initial_computed (map eval_call cs) = last_write_wins cs"
proof (induction cs rule: rev_induct)
  case Nil
  show ?case by (simp add: last_write_wins_Nil)
next
  case (snoc c cs)
  then show ?case by (simp add: apply_options_append last_write_wins_snoc)
qed

lemma defaults_pass: "\<not> word_sle (24 * time_Hour) (5 * time_Second)"
  by (simp add: time_Hour_def time_Second_def)

text \<open>
  C3.  Whenever the last revision quantization of an option sequence is greater than or
  equal to its last GC window (defaults standing in where the sequence sets none),
  \<open>generateConfig\<close> returns the error built from \<open>errQuantizationTooLarge\<close> with these
  two values as its operands, in this order.  The check is part of \<open>generateConfig\<close>
  itself, so the error is there when the configuration is constructed.
\<close>

theorem generateConfig_rejects:
  assumes "word_sle (final_window cs) (final_quantization cs)"
  shows "snd (generateConfig (map eval_call cs)) =
           Some (Errorf_s_s errQuantizationTooLarge (final_quantization cs) (final_window cs))"
  using assms by (simp add: generateConfig_def apply_options_calls last_write_wins_def)

text \<open>The concrete case: the default quantization of 5s against a GC window of 1s.\<close>

theorem generateConfig_rejects_witness:
  "word_sle (final_window [CallGCWindow time_Second]) (final_quantization [CallGCWindow time_Second])
   \<and> snd (generateConfig [GCWindow time_Second]) =
       Some (Errorf_s_s ''revision quantization (%s) must be less than GC window (%s)''
               5000000000 1000000000)"
proof -
  have h: "word_sle (final_window [CallGCWindow time_Second])
             (final_quantization [CallGCWindow time_Second])"
    by (simp add: final_window_def final_quantization_def last_applied_def time_Second_def)
  from generateConfig_rejects [OF h] show ?thesis
    using h
    by (simp add: final_window_def final_quantization_def last_applied_def time_Second_def
        errQuantizationTooLarge_def)
qed

text \<open>
  C4.  Whenever the last revision quantization of an option sequence is strictly less
  than its last GC window, \<open>generateConfig\<close> returns a nil error and the configuration
  in which every field holds the value of the last call that names it, and the default
  (24h, 128, 5s, nil for the pool and timeout fields) when no call names it.
\<close>

theorem generateConfig_accepts:
  assumes "word_sless (final_quantization cs) (final_window cs)"
  shows "generateConfig (map eval_call cs) = (last_write_wins cs, None)"
proof -
  from assms have "\<not> word_sle (final_window cs) (final_quantization cs)"
    by (simp add: signed.not_le)
  then show ?thesis
    by (simp add: generateConfig_def apply_options_calls last_write_wins_def)
qed

theorem generateConfig_accepts_witness:
  "word_sless
     (final_quantization [CallRevisionQuantization time_Second, CallGCWindow time_Hour,
        CallMaxOpenConns 10, CallRevisionQuantization (2 * time_Second)])
     (final_window [CallRevisionQuantization time_Second, CallGCWindow time_Hour,
        CallMaxOpenConns 10, CallRevisionQuantization (2 * time_Second)])
   \<and> generateConfig [RevisionQuantization time_Second, GCWindow time_Hour,
        MaxOpenConns 10, RevisionQuantization (2 * time_Second)] =
       (\<lparr>connMaxIdleTime = None, connMaxLifetime = None, minOpenConns = None,
         maxOpenConns = Some 10, watchBufferLength = 128,
         revisionQuantization = 2000000000, gcWindow = 3600000000000\<rparr>, None)"
proof -
  let ?cs = "[CallRevisionQuantization time_Second, CallGCWindow time_Hour,
        CallMaxOpenConns 10, CallRevisionQuantization (2 * time_Second)]"
  have h: "word_sless (final_quantization ?cs) (final_window ?cs)"
    by (simp add: final_window_def final_quantization_def last_applied_def
        time_Second_def time_Hour_def)
  from generateConfig_accepts [OF h] show ?thesis
    using h
    by (simp add: last_write_wins_def final_window_def final_quantization_def last_applied_def
        time_Second_def time_Hour_def)
qed

text \<open>
  C10.  When \<open>generateConfig\<close> returns an error, the configuration it returns next to it
  is the computed one: every field holds the value of the last call that names it,
  among them the quantization and the window that failed the check, so it is not the
  configuration of the defaults.
\<close>

theorem generateConfig_error_keeps_computed:
  assumes "snd (generateConfig (map eval_call cs)) \<noteq> None"
  shows "fst (generateConfig (map eval_call cs)) = last_write_wins cs
         \<and> word_sle (gcWindow (fst (generateConfig (map eval_call cs))))
                    (revisionQuantization (fst (generateConfig (map eval_call cs))))
         \<and> fst (generateConfig (map eval_call cs)) \<noteq> initial_computed"
proof -
  let ?c = "apply_options initial_computed (map eval_call cs)"
  from assms have bad: "word_sle (gcWindow ?c) (revisionQuantization ?c)"
    by (simp add: generateConfig_def Let_def split: if_splits)
  have same: "fst (generateConfig (map eval_call cs)) = ?c"
    by (simp add: generateConfig_def Let_def)
  have "?c \<noteq> initial_computed"
  proof
    assume "?c = initial_computed"
    with bad have "word_sle (24 * time_Hour) (5 * time_Second)"
      by (simp add: initial_computed_def defaultRevisionQuantization_def)
    with defaults_pass show False by simp
  qed
  with bad same show ?thesis by (simp add: apply_options_calls)
qed

theorem generateConfig_error_keeps_computed_witness:
  "snd (generateConfig [MinOpenConns 2, GCWindow time_Second]) \<noteq> None
   \<and> fst (generateConfig [MinOpenConns 2, GCWindow time_Second]) =
       \<lparr>connMaxIdleTime = None, connMaxLifetime = None, minOpenConns = Some 2,
        maxOpenConns = None, watchBufferLength = 128,
        revisionQuantization = 5000000000, gcWindow = 1000000000\<rparr>"
proof -
  have h: "snd (generateConfig (map eval_call [CallMinOpenConns 2, CallGCWindow time_Second])) \<noteq> None"
    by (simp add: generateConfig_def initial_computed_def MinOpenConns_def GCWindow_def
        defaultRevisionQuantization_def time_Second_def)
  from generateConfig_error_keeps_computed [OF h] show ?thesis
    using h
    by (simp add: last_write_wins_def final_window_def final_quantization_def last_applied_def
        time_Second_def)
qed

section \<open>Properties of the driver\<close>

lemmas pgx_simps =
  pgx_ParseConfig_def pgx_ConnectConfig_def pgx_QueryRow_Scan_def pgx_BeginTx_def
  pgx_Tx_Exec_def pgx_Tx_Commit_def pgx_Tx_Rollback_def call_MigrationFunc_def
  logged_def session_of_def set_session_def

lemmas example_simps =
  healthy_def migrated_to_def a_driver_def a_tx_def begun_def
  empty_body_def add_table_body_def failing_body_def

subsection \<open>Sessions\<close>

lemma idle_in_range:
  "session_of w conn = Idle \<Longrightarrow>
     conn_id conn < length (sessions w) \<and> sessions w ! conn_id conn = Idle"
  by (simp add: session_of_def split: if_splits)

lemma set_session_idle:
  "session_of w conn = Idle \<Longrightarrow> set_session conn Idle w = w"
  by (simp add: session_of_def set_session_def list_update_same_conv split: if_splits)

lemma session_of_closed:
  "session_of (set_session conn Closed w) conn = Closed"
  by (simp add: session_of_def set_session_def)

lemma session_of_calls:
  "session_of (w\<lparr>calls := cs\<rparr>) conn = session_of w conn"
  by (simp add: session_of_def)

text \<open>
  On an idle connection \<open>Version\<close> reports what the committed content and the query
  fault decide; on a closed connection it reports the library's error.
\<close>

lemma Version_on_idle:
  "session_of w (db apd) = Idle \<Longrightarrow> session_of w' (db apd') = Idle \<Longrightarrow> store w = store w'
     \<Longrightarrow> fst (Version env apd w) = fst (Version env apd' w')"
proof -
  assume idle: "session_of w (db apd) = Idle" "session_of w' (db apd') = Idle"
    and same: "store w = store w'"
  show ?thesis
  proof (cases "query_fault env")
    case None
    with idle same show ?thesis
      by (cases "read_version (store w')")
         (simp_all add: Version_def pgx_QueryRow_Scan_def logged_def session_of_def Let_def
            del: read_version.simps split: if_splits option.splits)
  next
    case (Some flt)
    with idle show ?thesis
      by (simp add: Version_def pgx_QueryRow_Scan_def logged_def session_of_def Let_def
          split: if_splits option.splits)
  qed
qed

lemma Version_on_closed:
  "session_of w (db apd) = Closed \<Longrightarrow>
     fst (Version env apd w) =
       ([], Some (Errorf_w ''unable to load alembic revision: %w'' ErrConnClosed))"
  by (simp add: Version_def pgx_QueryRow_Scan_def logged_def session_of_def ErrConnClosed_def
      split: if_splits)

text \<open>A driver that \<open>NewCRDBDriver\<close> returns has an idle connection to the same database.\<close>

lemma NewCRDBDriver_idle:
  assumes "NewCRDBDriver env url w = (Inr apd, w')"
  shows "store w' = store w \<and> session_of w' (db apd) = Idle"
  using assms
  by (auto simp add: NewCRDBDriver_def pgx_ParseConfig_def pgx_ConnectConfig_def logged_def
      session_of_def Let_def split: sum.splits option.splits)

subsection \<open>Transactions\<close>

text \<open>
  Once the transaction has begun, the last library call of \<open>Transact\<close> is the deferred
  rollback, on every path.
\<close>

lemma Transact_ends_with_rollback:
  assumes "pgx_BeginTx env (db apd) \<lparr>AccessMode = ReadWrite\<rparr> w = (Inr tx, w1)"
  shows "\<exists>cs. calls (snd (Transact env apd f version replaced w)) = cs @ [CallRollback]"
proof -
  obtain err tx1 w2 where r: "Transact_return env f version replaced tx w1 = (err, tx1, w2)"
    by (cases "Transact_return env f version replaced tx w1")
  obtain dropped tx2 w3 where d: "pgx_Tx_Rollback env tx1 w2 = (dropped, tx2, w3)"
    by (cases "pgx_Tx_Rollback env tx1 w2")
  from d have "calls w3 = calls w2 @ [CallRollback]"
    by (auto simp add: pgx_Tx_Rollback_def logged_def set_session_def Let_def
        split: if_splits session.splits option.splits)
  with assms r d show ?thesis
    by (simp add: Transact_def)
qed

text \<open>
  C1.  On an idle connection, when the transaction has begun and the migration body
  returns an error, \<open>Transact\<close> returns exactly that error, whatever the rollback itself
  returns.  The library calls it issues are \<open>BeginTx\<close>, the body and \<open>Rollback\<close>, with
  neither the version update nor a commit, and the committed content of the database
  is what it was before the call.  When the rollback succeeds the connection is idle
  again and nothing else in the world has changed, so that a \<open>Version\<close> call on the same
  driver reports what it reported before.  When the rollback fails the library has
  closed the connection: \<open>Version\<close> on the same driver reports the library's error, and
  \<open>Version\<close> on a driver opened afterwards reports what the first one reported before.
\<close>

theorem Transact_body_error_rolls_back:
  assumes "session_of w (db apd) = Idle" and "begin_fault env = None"
    and "f (store w) = (Some err, v)"
  shows "Transact env apd f version replaced w =
           (Some err,
            (case rollback_fault env of
               None \<Rightarrow> w
             | Some e \<Rightarrow> set_session (db apd) Closed w)
            \<lparr>calls := calls w @ [CallBeginTx ReadWrite, CallMigrationFunc, CallRollback]\<rparr>)
         \<and> store (snd (Transact env apd f version replaced w)) = store w
         \<and> (rollback_fault env = None \<longrightarrow>
              fst (Version env' apd (snd (Transact env apd f version replaced w))) =
                fst (Version env' apd w))
         \<and> (rollback_fault env \<noteq> None \<longrightarrow>
              fst (Version env' apd (snd (Transact env apd f version replaced w))) =
                ([], Some (Errorf_w ''unable to load alembic revision: %w'' ErrConnClosed)))
         \<and> (\<forall>url apd2 w2.
              NewCRDBDriver env2 url (snd (Transact env apd f version replaced w)) = (Inr apd2, w2)
                \<longrightarrow> fst (Version env' apd2 w2) = fst (Version env' apd w))"
proof -
  let ?T = "Transact env apd f version replaced w"
  let ?cs = "calls w @ [CallBeginTx ReadWrite, CallMigrationFunc, CallRollback]"
  from assms(1) have "conn_id (db apd) < length (sessions w)"
    and "sessions w ! conn_id (db apd) = Idle"
    by (simp_all add: idle_in_range)
  with assms(2,3) have run: "?T =
           (Some err,
            (case rollback_fault env of
               None \<Rightarrow> w
             | Some e \<Rightarrow> set_session (db apd) Closed w)\<lparr>calls := ?cs\<rparr>)"
    by (simp add: Transact_def Transact_return_def pgx_simps list_update_same_conv
        split: option.splits)
  have kept: "store (snd ?T) = store w"
    unfolding run by (simp add: set_session_def split: option.splits)
  have ok: "rollback_fault env = None \<longrightarrow>
              fst (Version env' apd (snd ?T)) = fst (Version env' apd w)"
  proof
    assume "rollback_fault env = None"
    with run have "snd ?T = w\<lparr>calls := ?cs\<rparr>"
      by simp
    with assms(1) have "session_of (snd ?T) (db apd) = Idle"
      by (simp add: session_of_calls)
    from Version_on_idle [OF this assms(1) kept]
    show "fst (Version env' apd (snd ?T)) = fst (Version env' apd w)" .
  qed
  have dead: "rollback_fault env \<noteq> None \<longrightarrow>
              fst (Version env' apd (snd ?T)) =
                ([], Some (Errorf_w ''unable to load alembic revision: %w'' ErrConnClosed))"
  proof
    assume "rollback_fault env \<noteq> None"
    with run have "snd ?T = (set_session (db apd) Closed w)\<lparr>calls := ?cs\<rparr>"
      by auto
    then have "session_of (snd ?T) (db apd) = Closed"
      by (simp add: session_of_calls session_of_closed)
    then show "fst (Version env' apd (snd ?T)) =
                ([], Some (Errorf_w ''unable to load alembic revision: %w'' ErrConnClosed))"
      by (rule Version_on_closed)
  qed
  have fresh: "\<forall>url apd2 w2. NewCRDBDriver env2 url (snd ?T) = (Inr apd2, w2)
                \<longrightarrow> fst (Version env' apd2 w2) = fst (Version env' apd w)"
  proof (intro allI impI)
    fix url apd2 w2
    assume "NewCRDBDriver env2 url (snd ?T) = (Inr apd2, w2)"
    then have "store w2 = store (snd ?T)" and i: "session_of w2 (db apd2) = Idle"
      by (simp_all add: NewCRDBDriver_idle)
    with kept have "store w2 = store w"
      by simp
    from Version_on_idle [OF i assms(1) this]
    show "fst (Version env' apd2 w2) = fst (Version env' apd w)" .
  qed
  from run kept ok dead fresh show ?thesis
    by blast
qed

text \<open>
  The body creates a table and overwrites the version rows before it fails.  With a
  rollback that succeeds, and with one that fails.
\<close>

theorem Transact_body_error_rolls_back_witness:
  "Transact healthy a_driver failing_body ''003'' ''002'' (migrated_to [''002'']) =
     (Some (ErrorString ''column already exists''),
      \<lparr>store = \<lparr>schema_version = Some [''002''], relations = [''relation_tuple'']\<rparr>,
       sessions = [Idle],
       calls = [CallBeginTx ReadWrite, CallMigrationFunc, CallRollback]\<rparr>)
   \<and> fst (Version healthy a_driver
        (snd (Transact healthy a_driver failing_body ''003'' ''002'' (migrated_to [''002''])))) =
     (''002'', None)
   \<and> Transact (healthy\<lparr>rollback_fault := Some (ErrorString ''connection reset'')\<rparr>) a_driver
       failing_body ''003'' ''002'' (migrated_to [''002'']) =
     (Some (ErrorString ''column already exists''),
      \<lparr>store = \<lparr>schema_version = Some [''002''], relations = [''relation_tuple'']\<rparr>,
       sessions = [Closed],
       calls = [CallBeginTx ReadWrite, CallMigrationFunc, CallRollback]\<rparr>)
   \<and> fst (Version healthy a_driver
        (snd (Transact (healthy\<lparr>rollback_fault := Some (ErrorString ''connection reset'')\<rparr>)
                a_driver failing_body ''003'' ''002'' (migrated_to [''002''])))) =
     ([], Some (Errorf_w ''unable to load alembic revision: %w'' (ErrorString ''conn closed'')))
   \<and> fst (NewCRDBDriver healthy ''postgres://db''
        (snd (Transact (healthy\<lparr>rollback_fault := Some (ErrorString ''connection reset'')\<rparr>)
                a_driver failing_body ''003'' ''002'' (migrated_to [''002''])))) = Inr second_driver
   \<and> fst (Version healthy second_driver
        (snd (NewCRDBDriver healthy ''postgres://db''
          (snd (Transact (healthy\<lparr>rollback_fault := Some (ErrorString ''connection reset'')\<rparr>)
                  a_driver failing_body ''003'' ''002'' (migrated_to [''002''])))))) =
     (''002'', None)"
proof -
  let ?bad = "healthy\<lparr>rollback_fault := Some (ErrorString ''connection reset'')\<rparr>"
  let ?w = "migrated_to [''002'']"
  let ?T = "Transact healthy a_driver failing_body ''003'' ''002'' ?w"
  let ?B = "Transact ?bad a_driver failing_body ''003'' ''002'' ?w"
  have i: "session_of ?w (db a_driver) = Idle"
    by (simp add: session_of_def migrated_to_def a_driver_def)
  have b: "begin_fault healthy = None" and b': "begin_fault ?bad = None"
    and r: "rollback_fault healthy = None" and r': "rollback_fault ?bad \<noteq> None"
    by (simp_all add: healthy_def)
  have f: "failing_body (store ?w) =
             (Some (ErrorString ''column already exists''),
              \<lparr>schema_version = Some [''999''],
               relations = [''namespace_config'', ''relation_tuple'']\<rparr>)"
    by (simp add: failing_body_def migrated_to_def)
  have v: "fst (Version healthy a_driver ?w) = (''002'', None)"
    by (simp add: Version_def pgx_QueryRow_Scan_def logged_def session_of_def
        healthy_def migrated_to_def a_driver_def)
  note good = Transact_body_error_rolls_back
         [where env = healthy and f = failing_body and w = ?w
            and apd = a_driver and version = "''003''" and replaced = "''002''"
            and env' = healthy, OF i b f]
  note bad = Transact_body_error_rolls_back
         [where env = ?bad and f = failing_body and w = ?w
            and apd = a_driver and version = "''003''" and replaced = "''002''"
            and env' = healthy, OF i b' f]
  from good have "?T = (Some (ErrorString ''column already exists''),
      (case rollback_fault healthy of None \<Rightarrow> ?w | Some e \<Rightarrow> set_session (db a_driver) Closed ?w)
      \<lparr>calls := calls ?w @ [CallBeginTx ReadWrite, CallMigrationFunc, CallRollback]\<rparr>)"
    by (rule conjunct1)
  then have c1: "?T = (Some (ErrorString ''column already exists''),
      \<lparr>store = \<lparr>schema_version = Some [''002''], relations = [''relation_tuple'']\<rparr>,
       sessions = [Idle],
       calls = [CallBeginTx ReadWrite, CallMigrationFunc, CallRollback]\<rparr>)"
    by (simp add: healthy_def migrated_to_def)
  from good r have "fst (Version healthy a_driver (snd ?T)) = fst (Version healthy a_driver ?w)"
    by blast
  with v have c2: "fst (Version healthy a_driver (snd ?T)) = (''002'', None)"
    by simp
  from bad have "?B = (Some (ErrorString ''column already exists''),
      (case rollback_fault ?bad of None \<Rightarrow> ?w | Some e \<Rightarrow> set_session (db a_driver) Closed ?w)
      \<lparr>calls := calls ?w @ [CallBeginTx ReadWrite, CallMigrationFunc, CallRollback]\<rparr>)"
    by (rule conjunct1)
  then have c3: "?B = (Some (ErrorString ''column already exists''),
      \<lparr>store = \<lparr>schema_version = Some [''002''], relations = [''relation_tuple'']\<rparr>,
       sessions = [Closed],
       calls = [CallBeginTx ReadWrite, CallMigrationFunc, CallRollback]\<rparr>)"
    by (simp add: healthy_def migrated_to_def set_session_def a_driver_def)
  from bad r' have c4: "fst (Version healthy a_driver (snd ?B)) =
     ([], Some (Errorf_w ''unable to load alembic revision: %w'' (ErrorString ''conn closed'')))"
    unfolding ErrConnClosed_def by blast
  let ?N = "NewCRDBDriver healthy ''postgres://db'' (snd ?B)"
  have c5: "fst ?N = Inr second_driver"
    unfolding c3
    by (simp add: NewCRDBDriver_def pgx_ParseConfig_def pgx_ConnectConfig_def logged_def
        healthy_def second_driver_def)
  then have "?N = (Inr second_driver, snd ?N)"
    by (simp add: prod_eq_iff)
  with bad have "fst (Version healthy second_driver (snd ?N)) = fst (Version healthy a_driver ?w)"
    by blast
  with v have c6: "fst (Version healthy second_driver (snd ?N)) = (''002'', None)"
    by simp
  from c1 c2 c3 c4 c5 c6 show ?thesis
    by blast
qed

text \<open>
  C2.  On an idle connection, when the body has succeeded and the conditional update
  runs on a version table in which the number of rows holding \<open>replaced\<close> is not one,
  \<open>Transact\<close> returns the error that reports this number (0 when the stored version is
  not \<open>replaced\<close>, 2 or more when several rows hold it), after a single \<open>Exec\<close> and without
  a commit, and the committed content of the database, the stored version with it, is
  what it was before.  Nothing else in the world has changed but the log of calls and,
  when the deferred rollback fails, the connection, which the library has closed.
\<close>

theorem Transact_rows_affected_not_one:
  assumes "session_of w (db apd) = Idle"
    and "begin_fault env = None" and "f (store w) = (None, v)"
    and "exec_fault env = None" and "schema_version v = Some rows"
    and "rows_matching replaced rows \<noteq> 1"
  shows "Transact env apd f version replaced w =
           (Some (Errorf_d ''writing version update affected %d rows, should be 1''
                    (rows_matching replaced rows)),
            (case rollback_fault env of
               None \<Rightarrow> w
             | Some e \<Rightarrow> set_session (db apd) Closed w)
            \<lparr>calls := calls w @ [CallBeginTx ReadWrite, CallMigrationFunc,
                 CallExec queryWriteVersion [version, replaced], CallRollback]\<rparr>)
         \<and> store (snd (Transact env apd f version replaced w)) = store w"
proof -
  from assms(1) have "conn_id (db apd) < length (sessions w)"
    and "sessions w ! conn_id (db apd) = Idle"
    by (simp_all add: idle_in_range)
  with assms(2-6) have run: "Transact env apd f version replaced w =
           (Some (Errorf_d ''writing version update affected %d rows, should be 1''
                    (rows_matching replaced rows)),
            (case rollback_fault env of
               None \<Rightarrow> w
             | Some e \<Rightarrow> set_session (db apd) Closed w)
            \<lparr>calls := calls w @ [CallBeginTx ReadWrite, CallMigrationFunc,
                 CallExec queryWriteVersion [version, replaced], CallRollback]\<rparr>)"
    by (simp add: Transact_def Transact_return_def writeVersion_def pgx_simps
        list_update_same_conv split: option.splits)
  have "store (snd (Transact env apd f version replaced w)) = store w"
    unfolding run by (simp add: set_session_def split: option.splits)
  with run show ?thesis
    by blast
qed

theorem Transact_rows_affected_not_one_witness:
  "rows_matching ''001'' [''002''] = 0
   \<and> Transact healthy a_driver empty_body ''002a'' ''001'' (migrated_to [''002'']) =
     (Some (Errorf_d ''writing version update affected %d rows, should be 1'' 0),
      \<lparr>store = \<lparr>schema_version = Some [''002''], relations = [''relation_tuple'']\<rparr>,
       sessions = [Idle],
       calls = [CallBeginTx ReadWrite, CallMigrationFunc,
                CallExec queryWriteVersion [''002a'', ''001''], CallRollback]\<rparr>)"
proof -
  let ?w = "migrated_to [''002'']"
  have i: "session_of ?w (db a_driver) = Idle"
    by (simp add: session_of_def migrated_to_def a_driver_def)
  have b: "begin_fault healthy = None" and x: "exec_fault healthy = None"
    by (simp_all add: healthy_def)
  have f: "empty_body (store ?w) = (None, store ?w)"
    by (simp add: empty_body_def)
  have t: "schema_version (store ?w) = Some [''002'']"
    by (simp add: migrated_to_def)
  have n: "rows_matching ''001'' [''002''] = 0"
    by (simp add: rows_matching_def)
  then have n1: "rows_matching ''001'' [''002''] \<noteq> 1"
    by simp
  from Transact_rows_affected_not_one
         [where env = healthy and f = empty_body and w = ?w
            and apd = a_driver and version = "''002a''", OF i b f x t n1]
  have "Transact healthy a_driver empty_body ''002a'' ''001'' ?w =
     (Some (Errorf_d ''writing version update affected %d rows, should be 1''
              (rows_matching ''001'' [''002''])),
      (case rollback_fault healthy of None \<Rightarrow> ?w | Some e \<Rightarrow> set_session (db a_driver) Closed ?w)
      \<lparr>calls := calls ?w @ [CallBeginTx ReadWrite, CallMigrationFunc,
                 CallExec queryWriteVersion [''002a'', ''001''], CallRollback]\<rparr>)"
    by (rule conjunct1)
  with n show ?thesis
    by (simp add: migrated_to_def healthy_def)
qed

text \<open>
  C5.  \<open>Version\<close> has three outcomes.  A read that fails with an error whose chain holds a
  \<open>PgError\<close> of code 42P01 gives the empty string and a nil error; a read that fails with
  any other error gives the empty string and that error wrapped with the message
  "unable to load alembic revision"; a read that succeeds gives the string read and a
  nil error.  On a database without the version table, a read that reaches the server
  over an idle connection is of the first kind; a read over a closed connection is of
  the second.
\<close>

theorem Version_outcomes:
  "(pgx_QueryRow_Scan env (db apd) queryLoadVersion w = (Inl err, w1) \<and>
      errors_As_PgError err = Some ''42P01''
        \<longrightarrow> Version env apd w = (([], None), w1))
   \<and> (pgx_QueryRow_Scan env (db apd) queryLoadVersion w = (Inl err, w1) \<and>
      errors_As_PgError err \<noteq> Some ''42P01''
        \<longrightarrow> Version env apd w =
              (([], Some (Errorf_w ''unable to load alembic revision: %w'' err)), w1))
   \<and> (pgx_QueryRow_Scan env (db apd) queryLoadVersion w = (Inr loaded, w1)
        \<longrightarrow> Version env apd w = ((loaded, None), w1))
   \<and> (session_of w (db apd) = Idle \<and> query_fault env = None \<and> schema_version (store w) = None
        \<longrightarrow> fst (Version env apd w) = ([], None))
   \<and> (session_of w (db apd) = Closed
        \<longrightarrow> fst (Version env apd w) =
              ([], Some (Errorf_w ''unable to load alembic revision: %w'' ErrConnClosed)))"
proof -
  have absent: "session_of w (db apd) = Idle \<and> query_fault env = None \<and>
      schema_version (store w) = None \<longrightarrow> fst (Version env apd w) = ([], None)"
    by (simp add: Version_def postgresMissingTableErrorCode_def pgx_QueryRow_Scan_def
        logged_def session_of_def Let_def split: if_splits)
  have outcomes:
    "(pgx_QueryRow_Scan env (db apd) queryLoadVersion w = (Inl err, w1) \<and>
      errors_As_PgError err = Some ''42P01''
        \<longrightarrow> Version env apd w = (([], None), w1))
   \<and> (pgx_QueryRow_Scan env (db apd) queryLoadVersion w = (Inl err, w1) \<and>
      errors_As_PgError err \<noteq> Some ''42P01''
        \<longrightarrow> Version env apd w =
              (([], Some (Errorf_w ''unable to load alembic revision: %w'' err)), w1))
   \<and> (pgx_QueryRow_Scan env (db apd) queryLoadVersion w = (Inr loaded, w1)
        \<longrightarrow> Version env apd w = ((loaded, None), w1))"
    by (auto simp add: Version_def postgresMissingTableErrorCode_def split: option.splits)
  from outcomes absent Version_on_closed [of w apd env] show ?thesis
    by blast
qed

theorem Version_outcomes_witness:
  "Version (healthy\<lparr>query_fault :=
              Some (Refused (Errorf_w ''query failed: %w'' (PgError ''42P01'')))\<rparr>)
       a_driver (migrated_to [''002'']) =
     (([], None), (migrated_to [''002''])\<lparr>calls := [CallQueryRow queryLoadVersion]\<rparr>)
   \<and> Version (healthy\<lparr>query_fault := Some (Refused (PgError ''42501''))\<rparr>) a_driver
       (migrated_to [''002'']) =
     (([], Some (Errorf_w ''unable to load alembic revision: %w'' (PgError ''42501''))),
      (migrated_to [''002''])\<lparr>calls := [CallQueryRow queryLoadVersion]\<rparr>)
   \<and> Version healthy a_driver (migrated_to [''002'']) =
     ((''002'', None), (migrated_to [''002''])\<lparr>calls := [CallQueryRow queryLoadVersion]\<rparr>)
   \<and> fst (Version healthy a_driver
        ((migrated_to [])\<lparr>store := \<lparr>schema_version = None, relations = []\<rparr>\<rparr>)) = ([], None)
   \<and> fst (Version healthy a_driver ((migrated_to [''002''])\<lparr>sessions := [Closed]\<rparr>)) =
       ([], Some (Errorf_w ''unable to load alembic revision: %w'' (ErrorString ''conn closed'')))"
proof -
  let ?w = "migrated_to [''002'']"
  let ?after = "?w\<lparr>calls := [CallQueryRow queryLoadVersion]\<rparr>"
  let ?absent = "(migrated_to [])\<lparr>store := \<lparr>schema_version = None, relations = []\<rparr>\<rparr>"
  let ?dead = "(migrated_to [''002''])\<lparr>sessions := [Closed]\<rparr>"
  let ?missing = "healthy\<lparr>query_fault :=
              Some (Refused (Errorf_w ''query failed: %w'' (PgError ''42P01'')))\<rparr>"
  let ?denied = "healthy\<lparr>query_fault := Some (Refused (PgError ''42501''))\<rparr>"
  have q1: "pgx_QueryRow_Scan ?missing (db a_driver) queryLoadVersion ?w =
              (Inl (Errorf_w ''query failed: %w'' (PgError ''42P01'')), ?after)
            \<and> errors_As_PgError (Errorf_w ''query failed: %w'' (PgError ''42P01'')) = Some ''42P01''"
    by (simp add: pgx_QueryRow_Scan_def logged_def session_of_def set_session_def
        healthy_def migrated_to_def a_driver_def)
  have q2: "pgx_QueryRow_Scan ?denied (db a_driver) queryLoadVersion ?w = (Inl (PgError ''42501''), ?after)
            \<and> errors_As_PgError (PgError ''42501'') \<noteq> Some ''42P01''"
    by (simp add: pgx_QueryRow_Scan_def logged_def session_of_def set_session_def
        healthy_def migrated_to_def a_driver_def)
  have q3: "pgx_QueryRow_Scan healthy (db a_driver) queryLoadVersion ?w = (Inr ''002'', ?after)"
    by (simp add: pgx_QueryRow_Scan_def logged_def session_of_def
        healthy_def migrated_to_def a_driver_def)
  have q4: "session_of ?absent (db a_driver) = Idle \<and> query_fault healthy = None \<and>
            schema_version (store ?absent) = None"
    by (simp add: healthy_def session_of_def migrated_to_def a_driver_def)
  have q5: "session_of ?dead (db a_driver) = Closed"
    by (simp add: session_of_def a_driver_def)
  from Version_outcomes [of ?missing a_driver ?w _ ?after] q1
  have r1: "Version ?missing a_driver ?w = (([], None), ?after)" by blast
  from Version_outcomes [of ?denied a_driver ?w "PgError ''42501''" ?after] q2
  have r2: "Version ?denied a_driver ?w =
     (([], Some (Errorf_w ''unable to load alembic revision: %w'' (PgError ''42501''))), ?after)"
    by blast
  from Version_outcomes [of healthy a_driver ?w _ ?after "''002''"] q3
  have r3: "Version healthy a_driver ?w = ((''002'', None), ?after)" by blast
  from Version_outcomes [of healthy a_driver ?absent] q4
  have r4: "fst (Version healthy a_driver ?absent) = ([], None)"
    by blast
  from Version_outcomes [of healthy a_driver ?dead] q5
  have r5: "fst (Version healthy a_driver ?dead) =
       ([], Some (Errorf_w ''unable to load alembic revision: %w'' (ErrorString ''conn closed'')))"
    unfolding ErrConnClosed_def by blast
  from r1 r2 r3 r4 r5 show ?thesis by blast
qed

lemma single_row_update:
  assumes "length rows = 1" and "rows_matching replaced rows = 1"
  shows "update_version_num version replaced rows = [version]"
proof -
  from assms(1) obtain r where rows: "rows = [r]"
    by (cases rows) simp_all
  with assms(2) have "r = replaced"
    by (simp add: rows_matching_def split: if_splits)
  with rows show ?thesis
    by (simp add: update_version_num_def)
qed

text \<open>
  C6, as the claim states it, fails on a version table of two rows, \<open>002\<close> and \<open>003\<close>:
  the body succeeds, the update from \<open>002\<close> to \<open>003\<close> affects exactly one row, the
  transaction is committed, and the table then holds two rows of value \<open>003\<close>.
\<close>

theorem Transact_one_row_affected_two_rows_left:
  "fst (empty_body (store (migrated_to [''002'', ''003'']))) = None
   \<and> rows_matching ''002'' [''002'', ''003''] = 1
   \<and> fst (Transact healthy a_driver empty_body ''003'' ''002''
             (migrated_to [''002'', ''003''])) = None
   \<and> schema_version (store (snd (Transact healthy a_driver empty_body ''003'' ''002''
             (migrated_to [''002'', ''003''])))) = Some [''003'', ''003'']
   \<and> schema_version (store (snd (Transact healthy a_driver empty_body ''003'' ''002''
             (migrated_to [''002'', ''003''])))) \<noteq> Some [''003'']"
  by (simp add: Transact_def Transact_return_def writeVersion_def pgx_simps example_simps
      rows_matching_def update_version_num_def queryWriteVersion_def)

text \<open>
  C6, amended.  On an idle connection, when the transaction has begun, the body has
  succeeded and the conditional update has affected exactly one row: if the commit
  succeeds, \<open>Transact\<close> returns nil and the committed content of the database is what the
  body left, with that one row of the version table rewritten from \<open>replaced\<close> to
  \<open>version\<close> and its other rows untouched; if the commit fails, \<open>Transact\<close> returns the
  error of the commit and the committed content is what it was before the call.  In
  both cases the commit has closed the transaction, the deferred rollback finds nothing
  to do, and the connection is idle again, unless it broke during the commit, when it
  is closed.  When the version table the body left has a single row, the committed
  table is the single row \<open>version\<close>.
\<close>

theorem Transact_commits:
  assumes "session_of w (db apd) = Idle"
    and "begin_fault env = None" and "f (store w) = (None, v)"
    and "exec_fault env = None" and "schema_version v = Some rows"
    and "rows_matching replaced rows = 1"
  shows "(commit_fault env = None \<longrightarrow>
            Transact env apd f version replaced w =
              (None,
               w\<lparr>store := v\<lparr>schema_version := Some (update_version_num version replaced rows)\<rparr>,
                 calls := calls w @ [CallBeginTx ReadWrite, CallMigrationFunc,
                   CallExec queryWriteVersion [version, replaced], CallCommit, CallRollback]\<rparr>))
         \<and> (\<forall>flt. commit_fault env = Some flt \<longrightarrow>
            Transact env apd f version replaced w =
              (Some (cause flt),
               (set_session (db apd) (after_fault flt Idle) w)
               \<lparr>calls := calls w @ [CallBeginTx ReadWrite, CallMigrationFunc,
                   CallExec queryWriteVersion [version, replaced], CallCommit, CallRollback]\<rparr>)
            \<and> store (snd (Transact env apd f version replaced w)) = store w)
         \<and> (length rows = 1 \<longrightarrow> update_version_num version replaced rows = [version])"
proof -
  from assms(1) have range: "conn_id (db apd) < length (sessions w)"
    and idle: "sessions w ! conn_id (db apd) = Idle"
    by (simp_all add: idle_in_range)
  have ok: "commit_fault env = None \<longrightarrow>
            Transact env apd f version replaced w =
              (None,
               w\<lparr>store := v\<lparr>schema_version := Some (update_version_num version replaced rows)\<rparr>,
                 calls := calls w @ [CallBeginTx ReadWrite, CallMigrationFunc,
                   CallExec queryWriteVersion [version, replaced], CallCommit, CallRollback]\<rparr>)"
    using assms(2-6) range idle
    by (simp add: Transact_def Transact_return_def writeVersion_def pgx_simps
        list_update_same_conv)
  have failed: "\<forall>flt. commit_fault env = Some flt \<longrightarrow>
            Transact env apd f version replaced w =
              (Some (cause flt),
               (set_session (db apd) (after_fault flt Idle) w)
               \<lparr>calls := calls w @ [CallBeginTx ReadWrite, CallMigrationFunc,
                   CallExec queryWriteVersion [version, replaced], CallCommit, CallRollback]\<rparr>)
            \<and> store (snd (Transact env apd f version replaced w)) = store w"
    using assms(2-6) range idle
    by (simp add: Transact_def Transact_return_def writeVersion_def pgx_simps)
  from assms(6) have "length rows = 1 \<longrightarrow> update_version_num version replaced rows = [version]"
    by (simp add: single_row_update)
  with ok failed show ?thesis
    by blast
qed

text \<open>
  The concrete case: stored version \<open>002\<close>, replaced by \<open>003\<close>; then a commit that the
  server refuses.
\<close>

theorem Transact_commits_witness:
  "rows_matching ''002'' [''002''] = 1
   \<and> Transact healthy a_driver add_table_body ''003'' ''002'' (migrated_to [''002'']) =
       (None,
        \<lparr>store = \<lparr>schema_version = Some [''003''],
                  relations = [''namespace_config'', ''relation_tuple'']\<rparr>,
         sessions = [Idle],
         calls = [CallBeginTx ReadWrite, CallMigrationFunc,
                  CallExec queryWriteVersion [''003'', ''002''], CallCommit, CallRollback]\<rparr>)
   \<and> Transact (healthy\<lparr>commit_fault := Some (Refused (ErrorString ''restart transaction''))\<rparr>)
            a_driver add_table_body ''003'' ''002'' (migrated_to [''002'']) =
       (Some (ErrorString ''restart transaction''),
        \<lparr>store = \<lparr>schema_version = Some [''002''], relations = [''relation_tuple'']\<rparr>,
         sessions = [Idle],
         calls = [CallBeginTx ReadWrite, CallMigrationFunc,
                  CallExec queryWriteVersion [''003'', ''002''], CallCommit, CallRollback]\<rparr>)"
proof -
  let ?flt = "Refused (ErrorString ''restart transaction'')"
  let ?bad = "healthy\<lparr>commit_fault := Some ?flt\<rparr>"
  let ?w = "migrated_to [''002'']"
  let ?v = "\<lparr>schema_version = Some [''002''],
             relations = [''namespace_config'', ''relation_tuple'']\<rparr>"
  let ?cs = "calls ?w @ [CallBeginTx ReadWrite, CallMigrationFunc,
                   CallExec queryWriteVersion [''003'', ''002''], CallCommit, CallRollback]"
  have i: "session_of ?w (db a_driver) = Idle"
    by (simp add: session_of_def migrated_to_def a_driver_def)
  have b: "begin_fault healthy = None" and x: "exec_fault healthy = None"
    and c: "commit_fault healthy = None"
    and b': "begin_fault ?bad = None" and x': "exec_fault ?bad = None"
    and c': "commit_fault ?bad = Some ?flt"
    by (simp_all add: healthy_def)
  have f: "add_table_body (store ?w) = (None, ?v)"
    by (simp add: add_table_body_def migrated_to_def)
  have t: "schema_version ?v = Some [''002'']"
    by simp
  have n: "rows_matching ''002'' [''002''] = 1"
    by (simp add: rows_matching_def)
  have l: "length [''002''] = 1"
    by simp
  note good = Transact_commits
         [where env = healthy and f = add_table_body and w = ?w and apd = a_driver
            and version = "''003''", OF i b f x t n]
  note bad = Transact_commits
         [where env = ?bad and f = add_table_body and w = ?w and apd = a_driver
            and version = "''003''", OF i b' f x' t n]
  from good l have u: "update_version_num ''003'' ''002'' [''002''] = [''003'']"
    by blast
  from good c have "Transact healthy a_driver add_table_body ''003'' ''002'' ?w =
      (None, ?w\<lparr>store := ?v\<lparr>schema_version := Some (update_version_num ''003'' ''002'' [''002''])\<rparr>,
                calls := ?cs\<rparr>)"
    by blast
  then have g: "Transact healthy a_driver add_table_body ''003'' ''002'' ?w =
       (None,
        \<lparr>store = \<lparr>schema_version = Some [''003''],
                  relations = [''namespace_config'', ''relation_tuple'']\<rparr>,
         sessions = [Idle],
         calls = [CallBeginTx ReadWrite, CallMigrationFunc,
                  CallExec queryWriteVersion [''003'', ''002''], CallCommit, CallRollback]\<rparr>)"
    unfolding u by (simp add: migrated_to_def)
  from bad c' have "Transact ?bad a_driver add_table_body ''003'' ''002'' ?w =
      (Some (cause ?flt), (set_session (db a_driver) (after_fault ?flt Idle) ?w)\<lparr>calls := ?cs\<rparr>)"
    by blast
  then have h: "Transact ?bad a_driver add_table_body ''003'' ''002'' ?w =
       (Some (ErrorString ''restart transaction''),
        \<lparr>store = \<lparr>schema_version = Some [''002''], relations = [''relation_tuple'']\<rparr>,
         sessions = [Idle],
         calls = [CallBeginTx ReadWrite, CallMigrationFunc,
                  CallExec queryWriteVersion [''003'', ''002''], CallCommit, CallRollback]\<rparr>)"
    by (simp add: migrated_to_def set_session_def a_driver_def)
  from n g h show ?thesis
    by blast
qed

text \<open>
  C7.  \<open>NewCRDBDriver\<close> makes one attempt.  If the connection string does not parse, the
  parse error is returned wrapped by \<open>errUnableToInstantiate\<close> after the single call of
  \<open>ParseConfig\<close>, and no connection is attempted.  If it parses and connecting fails,
  that error is returned wrapped in the same way after one call of \<open>ParseConfig\<close> and
  one of \<open>ConnectConfig\<close>.  Otherwise the driver holds the connection that the one call of
  \<open>ConnectConfig\<close> opened, this connection is idle, and exactly one more connection is
  live than before.
\<close>

theorem NewCRDBDriver_single_attempt:
  "(ParseConfig env url = Inl err \<longrightarrow>
      NewCRDBDriver env url w =
        (Inl (Errorf_w ''unable to instantiate CRDBDriver: %w'' err),
         w\<lparr>calls := calls w @ [CallParseConfig url]\<rparr>))
   \<and> (ParseConfig env url = Inr cfg \<and> connect_fault env = Some err \<longrightarrow>
      NewCRDBDriver env url w =
        (Inl (Errorf_w ''unable to instantiate CRDBDriver: %w'' err),
         w\<lparr>calls := calls w @ [CallParseConfig url, CallConnectConfig (ConnString cfg)]\<rparr>))
   \<and> (ParseConfig env url = Inr cfg \<and> connect_fault env = None \<longrightarrow>
      NewCRDBDriver env url w =
        (Inr \<lparr>db = \<lparr>config = cfg\<lparr>Logger := Some ZerologAdapter\<rparr>,
                   conn_id = length (sessions w)\<rparr>\<rparr>,
         w\<lparr>sessions := sessions w @ [Idle],
           calls := calls w @ [CallParseConfig url, CallConnectConfig (ConnString cfg)]\<rparr>)
      \<and> live_conns (snd (NewCRDBDriver env url w)) = live_conns w + 1)"
  by (simp add: NewCRDBDriver_def errUnableToInstantiate_def pgx_ParseConfig_def
      pgx_ConnectConfig_def logged_def live_conns_def Let_def)

theorem NewCRDBDriver_single_attempt_witness:
  "NewCRDBDriver (healthy\<lparr>ParseConfig := (\<lambda>url. Inl (ErrorString ''cannot parse''))\<rparr>)
       ''postgres:/'' ((migrated_to [])\<lparr>sessions := []\<rparr>) =
     (Inl (Errorf_w ''unable to instantiate CRDBDriver: %w'' (ErrorString ''cannot parse'')),
      (migrated_to [])\<lparr>sessions := [], calls := [CallParseConfig ''postgres:/'']\<rparr>)
   \<and> NewCRDBDriver (healthy\<lparr>connect_fault := Some (ErrorString ''connection refused'')\<rparr>)
       ''postgres://db'' ((migrated_to [])\<lparr>sessions := []\<rparr>) =
     (Inl (Errorf_w ''unable to instantiate CRDBDriver: %w'' (ErrorString ''connection refused'')),
      (migrated_to [])\<lparr>sessions := [],
         calls := [CallParseConfig ''postgres://db'', CallConnectConfig ''postgres://db'']\<rparr>)
   \<and> NewCRDBDriver healthy ''postgres://db'' ((migrated_to [])\<lparr>sessions := []\<rparr>) =
     (Inr a_driver,
      (migrated_to [])\<lparr>sessions := [Idle],
         calls := [CallParseConfig ''postgres://db'', CallConnectConfig ''postgres://db'']\<rparr>)
   \<and> live_conns (snd (NewCRDBDriver healthy ''postgres://db''
         ((migrated_to [])\<lparr>sessions := []\<rparr>))) = 1"
proof -
  let ?unparsed = "healthy\<lparr>ParseConfig := (\<lambda>url. Inl (ErrorString ''cannot parse''))\<rparr>"
  let ?refused = "healthy\<lparr>connect_fault := Some (ErrorString ''connection refused'')\<rparr>"
  let ?cfg = "\<lparr>ConnString = ''postgres://db'', Logger = None\<rparr>"
  let ?w = "(migrated_to [])\<lparr>sessions := []\<rparr>"
  have p1: "ParseConfig ?unparsed ''postgres:/'' = Inl (ErrorString ''cannot parse'')"
    by simp
  have p2: "ParseConfig ?refused ''postgres://db'' = Inr ?cfg \<and>
            connect_fault ?refused = Some (ErrorString ''connection refused'')"
    by (simp add: healthy_def)
  have p3: "ParseConfig healthy ''postgres://db'' = Inr ?cfg \<and> connect_fault healthy = None"
    by (simp add: healthy_def)
  have l: "live_conns ?w = 0"
    by (simp add: live_conns_def)
  from NewCRDBDriver_single_attempt [of ?unparsed "''postgres:/''" _ ?w] p1
  have r1: "NewCRDBDriver ?unparsed ''postgres:/'' ?w =
     (Inl (Errorf_w ''unable to instantiate CRDBDriver: %w'' (ErrorString ''cannot parse'')),
      (migrated_to [])\<lparr>sessions := [], calls := [CallParseConfig ''postgres:/'']\<rparr>)"
    by (simp add: migrated_to_def)
  from NewCRDBDriver_single_attempt [of ?refused "''postgres://db''" _ ?w ?cfg] p2
  have r2: "NewCRDBDriver ?refused ''postgres://db'' ?w =
     (Inl (Errorf_w ''unable to instantiate CRDBDriver: %w'' (ErrorString ''connection refused'')),
      (migrated_to [])\<lparr>sessions := [],
         calls := [CallParseConfig ''postgres://db'', CallConnectConfig ''postgres://db'']\<rparr>)"
    by (simp add: migrated_to_def)
  from NewCRDBDriver_single_attempt [of healthy "''postgres://db''" _ ?w ?cfg] p3
  have r3: "NewCRDBDriver healthy ''postgres://db'' ?w =
     (Inr a_driver,
      (migrated_to [])\<lparr>sessions := [Idle],
         calls := [CallParseConfig ''postgres://db'', CallConnectConfig ''postgres://db'']\<rparr>)"
    by (simp add: migrated_to_def a_driver_def)
  from NewCRDBDriver_single_attempt [of healthy "''postgres://db''" _ ?w ?cfg] p3
  have "live_conns (snd (NewCRDBDriver healthy ''postgres://db'' ?w)) = live_conns ?w + 1"
    by blast
  with l have r4: "live_conns (snd (NewCRDBDriver healthy ''postgres://db'' ?w)) = 1"
    by simp
  from r1 r2 r3 r4 show ?thesis
    by blast
qed

text \<open>
  C9.  \<open>writeVersion\<close> never returns the error of its second test, "unable to compute
  number of rows affected": whatever \<open>tx.Exec\<close> does, the result is nil, or the error of
  \<open>Exec\<close> wrapped as "unable to update version row", or the error reporting a number of
  affected rows that differs from one.
\<close>

theorem writeVersion_errors:
  "fst (writeVersion env tx version replaced w) \<noteq>
     Some (Errorf_w ''unable to compute number of rows affected: %w'' e)
   \<and> (fst (writeVersion env tx version replaced w) = None
      \<or> (\<exists>cause. fst (writeVersion env tx version replaced w) =
            Some (Errorf_w ''unable to update version row: %w'' cause))
      \<or> (\<exists>n. n \<noteq> 1 \<and> fst (writeVersion env tx version replaced w) =
            Some (Errorf_d ''writing version update affected %d rows, should be 1'' n)))"
proof (cases "pgx_Tx_Exec env tx queryWriteVersion [version, replaced] w")
  case (fields tag tx1 w1)
  obtain result err where tag: "tag = (result, err)"
    by (cases tag)
  show ?thesis
  proof (cases err)
    case None
    with fields tag show ?thesis
      by (simp add: writeVersion_def)
  next
    case (Some failure)
    with fields tag show ?thesis
      by (simp add: writeVersion_def)
  qed
qed

theorem writeVersion_errors_witness:
  "fst (writeVersion (healthy\<lparr>exec_fault := Some (Broken (ErrorString ''timeout''))\<rparr>)
          a_tx ''003'' ''002'' (begun (migrated_to [''002'']))) =
     Some (Errorf_w ''unable to update version row: %w'' (ErrorString ''timeout''))
   \<and> fst (writeVersion healthy a_tx ''003'' ''002'' (begun (migrated_to [''002'']))) = None
   \<and> fst (writeVersion healthy a_tx ''003'' ''001'' (begun (migrated_to [''002'']))) =
     Some (Errorf_d ''writing version update affected %d rows, should be 1'' 0)
   \<and> fst (writeVersion healthy a_tx ''003'' ''001'' (begun (migrated_to [''002'']))) \<noteq>
     Some (Errorf_w ''unable to compute number of rows affected: %w'' (ErrorString ''timeout''))"
  using writeVersion_errors [of healthy a_tx "''003''" "''001''" "begun (migrated_to [''002''])"
      "ErrorString ''timeout''"]
  by (simp add: writeVersion_def pgx_Tx_Exec_def logged_def session_of_def set_session_def
      healthy_def migrated_to_def a_driver_def a_tx_def begun_def rows_matching_def
      queryWriteVersion_def)

text \<open>
  C8.  Registering a migration under a version that starts with a decimal digit, such
  as \<open>888\<close>, returns an error and leaves the registry as it was.  Registration does not
  involve the driver.
\<close>

theorem registerMigration_rejects_numeric_prefix:
  assumes "numeric_prefix version"
  shows "fst (registerMigration version replaces up registry) \<noteq> None
         \<and> snd (registerMigration version replaces up registry) = registry"
  using assms by (simp add: registerMigration_def)

theorem registerMigration_rejects_numeric_prefix_witness:
  "numeric_prefix ''888''
   \<and> fst (registerMigration ''888'' [] empty_body []) \<noteq> None
   \<and> snd (registerMigration ''888'' [] empty_body []) = []"
proof -
  have h: "numeric_prefix ''888''"
    by (simp add: numeric_prefix_def)
  from registerMigration_rejects_numeric_prefix [OF h, of "[]" empty_body "[]"] h
  show ?thesis
    by simp
qed

end
